theory Spec2Isabelle
  imports Main "HOL-Library.Word"
begin

section \<open>The logging facility of jp_log.c and jp_log.h\<close>

text \<open>
  The repository is one C unit: three variadic functions \<^verbatim>\<open>jpLog__info\<close>,
  \<^verbatim>\<open>jpLog__warn\<close> and \<^verbatim>\<open>jpLog__exit\<close> (jp_log.c) and the macros of jp_log.h
  that call them. Each function renders its message with \<^verbatim>\<open>vsprintf\<close> into a local
  array of \<^verbatim>\<open>MSGBUFF_SIZE\<close> bytes and prints one line with \<^verbatim>\<open>fprintf\<close>;
  \<^verbatim>\<open>jpLog__exit\<close> then calls \<^verbatim>\<open>exit(EXIT_FAILURE)\<close>.

  A value of type \<open>string\<close> stands for a C string: the characters before the
  terminating NUL. A C \<^verbatim>\<open>int\<close> is a 32-bit word read as two's complement.
\<close>

subsection \<open>C values, the process and its streams\<close>

type_synonym c_int = "32 word"

text \<open>The variadic arguments of a call, after the default argument promotions.\<close>

datatype arg = ArgInt c_int | ArgStr string

text \<open>
  What the C standard leaves undefined in the library calls the code makes:
  too few arguments, an argument of the wrong type, a store past the end of
  the buffer. \<open>Unmodelled_Conversion\<close> is of another kind: it marks a template
  outside \<^verbatim>\<open>%s\<close>, \<^verbatim>\<open>%d\<close> and \<^verbatim>\<open>%%\<close>, about which this development says
  nothing (C defines many of them); it is a limit of the model, not a statement
  about the code.
\<close>

datatype fault =
    Missing_Argument
  | Wrong_Argument_Type
  | Unmodelled_Conversion
  | Buffer_Overrun

datatype stream = Stdout | Stderr

text \<open>
  The process as the code sees it: the bytes written so far to the two standard
  streams, whether each stream is attached to a terminal, and the caller's own
  variables (\<open>user\<close>), which only the caller's expressions touch.
\<close>

record 'u world =
  stdout_bytes :: string
  stderr_bytes :: string
  stdout_isatty :: bool
  stderr_isatty :: bool
  user :: 'u

text \<open>
  A call returns a value, ends the process with a status, or has undefined
  behaviour. \<open>Faults\<close> says that the C standard fixes nothing about the call:
  it promises no output and no return, and it does not say that a given run
  crashes or writes nothing.
\<close>

datatype ('a, 'u) outcome =
    Returns 'a "'u world"
  | Exits c_int "'u world"
  | Faults fault


text \<open>
  \<^verbatim>\<open>EXIT_FAILURE\<close> comes from \<^verbatim>\<open><stdlib.h>\<close>, not from the repository; 1 is its
  value in the C libraries in use.
\<close>

definition EXIT_FAILURE :: c_int where
  "EXIT_FAILURE = 1"

definition MSGBUFF_SIZE :: nat where
  "MSGBUFF_SIZE = 1024"

abbreviation ESC :: char where
  "ESC \<equiv> CHR 0x1B"

abbreviation NL :: char where
  "NL \<equiv> CHR 0x0A"

subsection \<open>The formatted output of the C library\<close>

definition digit_char :: "nat \<Rightarrow> char" where
  "digit_char d = ''0123456789'' ! d"

fun dec_nat :: "nat \<Rightarrow> string" where
  "dec_nat n =
     (if n < 10 then [digit_char n] else dec_nat (n div 10) @ [digit_char (n mod 10)])"

declare dec_nat.simps [simp del]

text \<open>The text of a \<^verbatim>\<open>%d\<close> conversion.\<close>

definition dec_int :: "int \<Rightarrow> string" where
  "dec_int i = (if i < 0 then CHR ''-'' # dec_nat (nat (- i)) else dec_nat (nat i))"

fun emit :: "string \<Rightarrow> fault + string \<Rightarrow> fault + string" where
  "emit s (Inl e) = Inl e"
| "emit s (Inr t) = Inr (s @ t)"

text \<open>
  The characters a \<^verbatim>\<open>printf\<close>-family call produces from a format and its
  arguments: ordinary characters are copied, \<^verbatim>\<open>%%\<close> gives a percent sign,
  \<^verbatim>\<open>%s\<close> and \<^verbatim>\<open>%d\<close> consume the next argument. Too few arguments or an
  argument of the wrong type is undefined; arguments left over are ignored.
\<close>

fun vformat :: "string \<Rightarrow> arg list \<Rightarrow> fault + string" where
  "vformat [] args = Inr []"
| "vformat (c # fs) args =
     (if c \<noteq> CHR ''%'' then emit [c] (vformat fs args)
      else (case fs of
          [] \<Rightarrow> Inl Unmodelled_Conversion
        | k # fs' \<Rightarrow>
            if k = CHR ''%'' then emit ''%'' (vformat fs' args)
            else if k = CHR ''s'' then
              (case args of
                 [] \<Rightarrow> Inl Missing_Argument
               | ArgStr s # as \<Rightarrow> emit s (vformat fs' as)
               | ArgInt _ # _ \<Rightarrow> Inl Wrong_Argument_Type)
            else if k = CHR ''d'' then
              (case args of
                 [] \<Rightarrow> Inl Missing_Argument
               | ArgInt n # as \<Rightarrow> emit (dec_int (sint n)) (vformat fs' as)
               | ArgStr _ # _ \<Rightarrow> Inl Wrong_Argument_Type)
            else Inl Unmodelled_Conversion))"

text \<open>
  \<^verbatim>\<open>vsprintf(buf, fmt, ap)\<close> stores the produced characters and a terminating NUL
  in \<open>buf\<close> and takes no bound: with an array of \<open>cap\<close> bytes, a text of
  \<open>cap\<close> characters or more is stored past the end of the array. The result is
  the C string left in the array.
\<close>

definition vsprintf :: "nat \<Rightarrow> string \<Rightarrow> arg list \<Rightarrow> fault + string" where
  "vsprintf cap fmt ap =
     (case vformat fmt ap of
        Inl e \<Rightarrow> Inl e
      | Inr text \<Rightarrow> if length text + 1 \<le> cap then Inr text else Inl Buffer_Overrun)"

definition write_stream :: "stream \<Rightarrow> string \<Rightarrow> 'u world \<Rightarrow> 'u world" where
  "write_stream f text w =
     (case f of
        Stdout \<Rightarrow> w\<lparr>stdout_bytes := stdout_bytes w @ text\<rparr>
      | Stderr \<Rightarrow> w\<lparr>stderr_bytes := stderr_bytes w @ text\<rparr>)"

definition fprintf :: "stream \<Rightarrow> string \<Rightarrow> arg list \<Rightarrow> 'u world \<Rightarrow> (unit, 'u) outcome" where
  "fprintf f fmt args w =
     (case vformat fmt args of
        Inl e \<Rightarrow> Faults e
      | Inr text \<Rightarrow> Returns () (write_stream f text w))"

definition exit_process :: "c_int \<Rightarrow> 'u world \<Rightarrow> ('a, 'u) outcome" where
  "exit_process status w = Exits status w"

subsection \<open>Sequencing\<close>

text \<open>
  \<open>seq m k\<close> runs \<open>m\<close> and then \<open>k\<close> on its value, as the statements of a function
  body and the operands of the comma operator do; nothing runs after the
  process has ended.
\<close>

definition seq ::
  "('u world \<Rightarrow> ('a, 'u) outcome) \<Rightarrow> ('a \<Rightarrow> 'u world \<Rightarrow> ('b, 'u) outcome) \<Rightarrow>
   'u world \<Rightarrow> ('b, 'u) outcome" where
  "seq m k w =
     (case m w of
        Returns a w' \<Rightarrow> k a w'
      | Exits s w' \<Rightarrow> Exits s w'
      | Faults e \<Rightarrow> Faults e)"

subsection \<open>jp_log.c\<close>

definition jpLog__info ::
  "string \<Rightarrow> string \<Rightarrow> c_int \<Rightarrow> string \<Rightarrow> arg list \<Rightarrow> 'u world \<Rightarrow> (unit, 'u) outcome" where
  "jpLog__info file func line msg ap w =
     (case vsprintf MSGBUFF_SIZE msg ap of
        Inl e \<Rightarrow> Faults e
      | Inr msgbuff \<Rightarrow>
          fprintf Stdout
            (''['' @ [ESC] @ ''[34;1mINFO'' @ [ESC] @ ''[0m][%s][%s][%d]: %s'' @ [NL])
            [ArgStr file, ArgStr func, ArgInt line, ArgStr msgbuff] w)"

definition jpLog__warn ::
  "string \<Rightarrow> string \<Rightarrow> c_int \<Rightarrow> string \<Rightarrow> arg list \<Rightarrow> 'u world \<Rightarrow> (unit, 'u) outcome" where
  "jpLog__warn file func line msg ap w =
     (case vsprintf MSGBUFF_SIZE msg ap of
        Inl e \<Rightarrow> Faults e
      | Inr msgbuff \<Rightarrow>
          fprintf Stderr
            (''['' @ [ESC] @ ''[33;1mWARN'' @ [ESC] @ ''[0m][%s][%s][%d]: %s'' @ [NL])
            [ArgStr file, ArgStr func, ArgInt line, ArgStr msgbuff] w)"

definition jpLog__exit ::
  "string \<Rightarrow> string \<Rightarrow> c_int \<Rightarrow> string \<Rightarrow> arg list \<Rightarrow> 'u world \<Rightarrow> (unit, 'u) outcome" where
  "jpLog__exit file func line msg ap w =
     (case vsprintf MSGBUFF_SIZE msg ap of
        Inl e \<Rightarrow> Faults e
      | Inr msgbuff \<Rightarrow>
          seq
            (fprintf Stderr
               (''['' @ [ESC] @ ''[31;1mEXIT'' @ [ESC] @ ''[0m][%s][%s][%d]: %s'' @ [NL])
               [ArgStr file, ArgStr func, ArgInt line, ArgStr msgbuff])
            (\<lambda>_. exit_process EXIT_FAILURE) w)"

subsection \<open>jp_log.h: the macros\<close>

text \<open>
  A macro argument \<open>expr\<close> is a C expression: evaluating it gives a value and may
  change the caller's variables. The messages, formats and format arguments
  are taken as values, that is, as expressions without side effects. The macros
  insert \<^verbatim>\<open>__FILE__\<close>, \<^verbatim>\<open>__func__\<close> and \<^verbatim>\<open>__LINE__\<close> of the call site; here they
  are the first three parameters.
\<close>

type_synonym 'u cexpr = "'u \<Rightarrow> c_int \<times> 'u"

definition eval_expr :: "'u cexpr \<Rightarrow> 'u world \<Rightarrow> (c_int, 'u) outcome" where
  "eval_expr expr w = (case expr (user w) of (v, u') \<Rightarrow> Returns v (w\<lparr>user := u'\<rparr>))"

definition return_value :: "'a \<Rightarrow> 'u world \<Rightarrow> ('a, 'u) outcome" where
  "return_value v w = Returns v w"

text \<open>The cast \<^verbatim>\<open>(void)(e)\<close>: \<open>e\<close> is evaluated and its value dropped.\<close>

definition discard :: "('u world \<Rightarrow> ('a, 'u) outcome) \<Rightarrow> 'u world \<Rightarrow> (unit, 'u) outcome" where
  "discard m = seq m (\<lambda>_. return_value ())"

text \<open>
  The tiers as compiled in (\<^verbatim>\<open>#ifndef JP_LOG_NOINFO\<close> and its siblings). A
  guarded form is the conditional expression \<^verbatim>\<open>( (expr)?jpLog_info(msg),expr:expr )\<close>:
  the test, and in either branch \<open>expr\<close> again for the value.
\<close>

definition jpLog_info ::
  "string \<Rightarrow> string \<Rightarrow> c_int \<Rightarrow> string \<Rightarrow> 'u world \<Rightarrow> (unit, 'u) outcome" where
  "jpLog_info file func line msg = jpLog__info file func line ''%s'' [ArgStr msg]"

definition jpLog_infoIf ::
  "string \<Rightarrow> string \<Rightarrow> c_int \<Rightarrow> 'u cexpr \<Rightarrow> string \<Rightarrow> 'u world \<Rightarrow> (c_int, 'u) outcome" where
  "jpLog_infoIf file func line expr msg =
     seq (eval_expr expr) (\<lambda>c.
       if c \<noteq> 0 then seq (jpLog_info file func line msg) (\<lambda>_. eval_expr expr)
       else eval_expr expr)"

definition jpLog_infoFmt ::
  "string \<Rightarrow> string \<Rightarrow> c_int \<Rightarrow> string \<Rightarrow> arg list \<Rightarrow> 'u world \<Rightarrow> (unit, 'u) outcome" where
  "jpLog_infoFmt file func line fmt va_args = jpLog__info file func line fmt va_args"

definition jpLog_infoFmtIf ::
  "string \<Rightarrow> string \<Rightarrow> c_int \<Rightarrow> 'u cexpr \<Rightarrow> string \<Rightarrow> arg list \<Rightarrow> 'u world \<Rightarrow>
   (c_int, 'u) outcome" where
  "jpLog_infoFmtIf file func line expr fmt va_args =
     seq (eval_expr expr) (\<lambda>c.
       if c \<noteq> 0 then seq (jpLog_infoFmt file func line fmt va_args) (\<lambda>_. eval_expr expr)
       else eval_expr expr)"

definition jpLog_warn ::
  "string \<Rightarrow> string \<Rightarrow> c_int \<Rightarrow> string \<Rightarrow> 'u world \<Rightarrow> (unit, 'u) outcome" where
  "jpLog_warn file func line msg = jpLog__warn file func line ''%s'' [ArgStr msg]"

definition jpLog_warnIf ::
  "string \<Rightarrow> string \<Rightarrow> c_int \<Rightarrow> 'u cexpr \<Rightarrow> string \<Rightarrow> 'u world \<Rightarrow> (c_int, 'u) outcome" where
  "jpLog_warnIf file func line expr msg =
     seq (eval_expr expr) (\<lambda>c.
       if c \<noteq> 0 then seq (jpLog_warn file func line msg) (\<lambda>_. eval_expr expr)
       else eval_expr expr)"

definition jpLog_warnFmt ::
  "string \<Rightarrow> string \<Rightarrow> c_int \<Rightarrow> string \<Rightarrow> arg list \<Rightarrow> 'u world \<Rightarrow> (unit, 'u) outcome" where
  "jpLog_warnFmt file func line fmt va_args = jpLog__warn file func line fmt va_args"

definition jpLog_warnFmtIf ::
  "string \<Rightarrow> string \<Rightarrow> c_int \<Rightarrow> 'u cexpr \<Rightarrow> string \<Rightarrow> arg list \<Rightarrow> 'u world \<Rightarrow>
   (c_int, 'u) outcome" where
  "jpLog_warnFmtIf file func line expr fmt va_args =
     seq (eval_expr expr) (\<lambda>c.
       if c \<noteq> 0 then seq (jpLog_warnFmt file func line fmt va_args) (\<lambda>_. eval_expr expr)
       else eval_expr expr)"

definition jpLog_exit ::
  "string \<Rightarrow> string \<Rightarrow> c_int \<Rightarrow> string \<Rightarrow> 'u world \<Rightarrow> (unit, 'u) outcome" where
  "jpLog_exit file func line msg = jpLog__exit file func line ''%s'' [ArgStr msg]"

definition jpLog_exitIf ::
  "string \<Rightarrow> string \<Rightarrow> c_int \<Rightarrow> 'u cexpr \<Rightarrow> string \<Rightarrow> 'u world \<Rightarrow> (c_int, 'u) outcome" where
  "jpLog_exitIf file func line expr msg =
     seq (eval_expr expr) (\<lambda>c.
       if c \<noteq> 0 then seq (jpLog_exit file func line msg) (\<lambda>_. eval_expr expr)
       else eval_expr expr)"

definition jpLog_exitFmt ::
  "string \<Rightarrow> string \<Rightarrow> c_int \<Rightarrow> string \<Rightarrow> arg list \<Rightarrow> 'u world \<Rightarrow> (unit, 'u) outcome" where
  "jpLog_exitFmt file func line fmt va_args = jpLog__exit file func line fmt va_args"

definition jpLog_exitFmtIf ::
  "string \<Rightarrow> string \<Rightarrow> c_int \<Rightarrow> 'u cexpr \<Rightarrow> string \<Rightarrow> arg list \<Rightarrow> 'u world \<Rightarrow>
   (c_int, 'u) outcome" where
  "jpLog_exitFmtIf file func line expr fmt va_args =
     seq (eval_expr expr) (\<lambda>c.
       if c \<noteq> 0 then seq (jpLog_exitFmt file func line fmt va_args) (\<lambda>_. eval_expr expr)
       else eval_expr expr)"

text \<open>
  The tiers as compiled out (the \<^verbatim>\<open>#else\<close> branches): every macro of the tier is
  \<^verbatim>\<open>( (void)(__VA_ARGS__) )\<close>, its arguments joined by the comma operator. These
  definitions carry the name of the flag that selects them.
\<close>

definition jpLog_info_NOINFO :: "string \<Rightarrow> 'u world \<Rightarrow> (unit, 'u) outcome" where
  "jpLog_info_NOINFO msg = discard (return_value msg)"

definition jpLog_infoIf_NOINFO :: "'u cexpr \<Rightarrow> string \<Rightarrow> 'u world \<Rightarrow> (unit, 'u) outcome" where
  "jpLog_infoIf_NOINFO expr msg =
     discard (seq (eval_expr expr) (\<lambda>_. return_value msg))"

definition jpLog_infoFmt_NOINFO :: "string \<Rightarrow> arg list \<Rightarrow> 'u world \<Rightarrow> (unit, 'u) outcome" where
  "jpLog_infoFmt_NOINFO fmt va_args =
     discard (seq (return_value fmt) (\<lambda>_. return_value va_args))"

definition jpLog_infoFmtIf_NOINFO ::
  "'u cexpr \<Rightarrow> string \<Rightarrow> arg list \<Rightarrow> 'u world \<Rightarrow> (unit, 'u) outcome" where
  "jpLog_infoFmtIf_NOINFO expr fmt va_args =
     discard (seq (eval_expr expr) (\<lambda>_. seq (return_value fmt) (\<lambda>_. return_value va_args)))"

definition jpLog_warn_NOWARN :: "string \<Rightarrow> 'u world \<Rightarrow> (unit, 'u) outcome" where
  "jpLog_warn_NOWARN msg = discard (return_value msg)"

definition jpLog_warnIf_NOWARN :: "'u cexpr \<Rightarrow> string \<Rightarrow> 'u world \<Rightarrow> (unit, 'u) outcome" where
  "jpLog_warnIf_NOWARN expr msg =
     discard (seq (eval_expr expr) (\<lambda>_. return_value msg))"

definition jpLog_warnFmt_NOWARN :: "string \<Rightarrow> arg list \<Rightarrow> 'u world \<Rightarrow> (unit, 'u) outcome" where
  "jpLog_warnFmt_NOWARN fmt va_args =
     discard (seq (return_value fmt) (\<lambda>_. return_value va_args))"

definition jpLog_warnFmtIf_NOWARN ::
  "'u cexpr \<Rightarrow> string \<Rightarrow> arg list \<Rightarrow> 'u world \<Rightarrow> (unit, 'u) outcome" where
  "jpLog_warnFmtIf_NOWARN expr fmt va_args =
     discard (seq (eval_expr expr) (\<lambda>_. seq (return_value fmt) (\<lambda>_. return_value va_args)))"

definition jpLog_exit_NOEXIT :: "string \<Rightarrow> 'u world \<Rightarrow> (unit, 'u) outcome" where
  "jpLog_exit_NOEXIT msg = discard (return_value msg)"

definition jpLog_exitIf_NOEXIT :: "'u cexpr \<Rightarrow> string \<Rightarrow> 'u world \<Rightarrow> (unit, 'u) outcome" where
  "jpLog_exitIf_NOEXIT expr msg =
     discard (seq (eval_expr expr) (\<lambda>_. return_value msg))"

definition jpLog_exitFmt_NOEXIT :: "string \<Rightarrow> arg list \<Rightarrow> 'u world \<Rightarrow> (unit, 'u) outcome" where
  "jpLog_exitFmt_NOEXIT fmt va_args =
     discard (seq (return_value fmt) (\<lambda>_. return_value va_args))"

definition jpLog_exitFmtIf_NOEXIT ::
  "'u cexpr \<Rightarrow> string \<Rightarrow> arg list \<Rightarrow> 'u world \<Rightarrow> (unit, 'u) outcome" where
  "jpLog_exitFmtIf_NOEXIT expr fmt va_args =
     discard (seq (eval_expr expr) (\<lambda>_. seq (return_value fmt) (\<lambda>_. return_value va_args)))"

subsection \<open>The line format of the specification, and observations\<close>

text \<open>
  Section 6 of the specification gives the line as
  \<^verbatim>\<open>[<TAG>][<file>][<function>][<line>]: <message>\<close> and a newline, the tag
  possibly wrapped in colour escape sequences. \<open>color_wrapped\<close> is such a
  wrapping: the SGR sequence with the given codes, the text, and the reset
  sequence. These two definitions follow the specification's words; the code's
  lines are compared with them below.
\<close>

definition color_wrapped :: "string \<Rightarrow> string \<Rightarrow> string" where
  "color_wrapped codes text = [ESC] @ ''['' @ codes @ ''m'' @ text @ [ESC] @ ''[0m''"

definition log_prefix :: "string \<Rightarrow> string \<Rightarrow> string \<Rightarrow> string \<Rightarrow> string" where
  "log_prefix tag file func line =
     ''['' @ tag @ '']['' @ file @ '']['' @ func @ '']['' @ line @ '']: ''"

definition log_line :: "string \<Rightarrow> string \<Rightarrow> string \<Rightarrow> string \<Rightarrow> string \<Rightarrow> string" where
  "log_line tag file func line message = log_prefix tag file func line @ message @ [NL]"

text \<open>The outcome of a call, with the value replaced by the one an enclosing
  expression yields after it.\<close>

fun then_yield :: "'b \<Rightarrow> ('a, 'u) outcome \<Rightarrow> ('b, 'u) outcome" where
  "then_yield v (Returns _ w) = Returns v w"
| "then_yield v (Exits s w) = Exits s w"
| "then_yield v (Faults e) = Faults e"

text \<open>A condition without side effects: it reads the caller's variables and
  leaves them as they are.\<close>

definition pure_expr :: "('u \<Rightarrow> c_int) \<Rightarrow> 'u cexpr" where
  "pure_expr f u = (f u, u)"

text \<open>A condition with a side effect: its value is \<open>c\<close>, and it counts its
  evaluations in the caller's variable.\<close>

definition counting :: "c_int \<Rightarrow> nat cexpr" where
  "counting c n = (c, Suc n)"

text \<open>A condition whose value changes: \<open>a\<close> at its first evaluation and \<open>b\<close> at
  every later one, counting its evaluations as well.\<close>

definition flipping :: "c_int \<Rightarrow> c_int \<Rightarrow> nat cexpr" where
  "flipping a b n = (if n = 0 then a else b, Suc n)"

text \<open>A process that has written nothing, with both streams redirected away from
  a terminal.\<close>

definition world0 :: "nat world" where
  "world0 = \<lparr>stdout_bytes = [], stderr_bytes = [], stdout_isatty = False,
             stderr_isatty = False, user = 0\<rparr>"

section \<open>Properties\<close>

subsection \<open>Rendering and the three functions\<close>

lemma vformat_percent_s: "vformat ''%s'' [ArgStr m] = Inr m"
  by simp

lemma vsprintf_fits:
  "vformat msg ap = Inr text \<Longrightarrow> length text < cap \<Longrightarrow> vsprintf cap msg ap = Inr text"
  by (simp add: vsprintf_def)

lemma vsprintf_overrun:
  "vformat msg ap = Inr text \<Longrightarrow> cap \<le> length text \<Longrightarrow>
   vsprintf cap msg ap = Inl Buffer_Overrun"
  by (simp add: vsprintf_def)

lemma vsprintf_undefined: "vformat msg ap = Inl e \<Longrightarrow> vsprintf cap msg ap = Inl e"
  by (simp add: vsprintf_def)

text \<open>The three format strings of jp_log.c produce the line of the specification,
  with the tag always wrapped.\<close>

lemma info_format:
  "vformat (''['' @ [ESC] @ ''[34;1mINFO'' @ [ESC] @ ''[0m][%s][%s][%d]: %s'' @ [NL])
     [ArgStr file, ArgStr func, ArgInt line, ArgStr m] =
   Inr (log_line (color_wrapped ''34;1'' ''INFO'') file func (dec_int (sint line)) m)"
  by (simp add: log_line_def log_prefix_def color_wrapped_def)

lemma warn_format:
  "vformat (''['' @ [ESC] @ ''[33;1mWARN'' @ [ESC] @ ''[0m][%s][%s][%d]: %s'' @ [NL])
     [ArgStr file, ArgStr func, ArgInt line, ArgStr m] =
   Inr (log_line (color_wrapped ''33;1'' ''WARN'') file func (dec_int (sint line)) m)"
  by (simp add: log_line_def log_prefix_def color_wrapped_def)

lemma exit_format:
  "vformat (''['' @ [ESC] @ ''[31;1mEXIT'' @ [ESC] @ ''[0m][%s][%s][%d]: %s'' @ [NL])
     [ArgStr file, ArgStr func, ArgInt line, ArgStr m] =
   Inr (log_line (color_wrapped ''31;1'' ''EXIT'') file func (dec_int (sint line)) m)"
  by (simp add: log_line_def log_prefix_def color_wrapped_def)

lemma jpLog__info_cases:
  "jpLog__info file func line msg ap w =
     (case vsprintf MSGBUFF_SIZE msg ap of
        Inl e \<Rightarrow> Faults e
      | Inr m \<Rightarrow> Returns ()
          (w\<lparr>stdout_bytes := stdout_bytes w @
               log_line (color_wrapped ''34;1'' ''INFO'') file func (dec_int (sint line)) m\<rparr>))"
  unfolding jpLog__info_def fprintf_def info_format
  by (simp add: write_stream_def split: sum.splits)

lemma jpLog__warn_cases:
  "jpLog__warn file func line msg ap w =
     (case vsprintf MSGBUFF_SIZE msg ap of
        Inl e \<Rightarrow> Faults e
      | Inr m \<Rightarrow> Returns ()
          (w\<lparr>stderr_bytes := stderr_bytes w @
               log_line (color_wrapped ''33;1'' ''WARN'') file func (dec_int (sint line)) m\<rparr>))"
  unfolding jpLog__warn_def fprintf_def warn_format
  by (simp add: write_stream_def split: sum.splits)

lemma jpLog__exit_cases:
  "jpLog__exit file func line msg ap w =
     (case vsprintf MSGBUFF_SIZE msg ap of
        Inl e \<Rightarrow> Faults e
      | Inr m \<Rightarrow> Exits EXIT_FAILURE
          (w\<lparr>stderr_bytes := stderr_bytes w @
               log_line (color_wrapped ''31;1'' ''EXIT'') file func (dec_int (sint line)) m\<rparr>))"
  unfolding jpLog__exit_def fprintf_def exit_format seq_def
  by (simp add: write_stream_def exit_process_def split: sum.splits)

text \<open>The functions leave the caller's variables alone, and \<open>jpLog__exit\<close> never
  returns.\<close>

lemma emissions_keep_user:
  "jpLog__info file func line msg ap w = Returns u w' \<Longrightarrow> user w' = user w"
  "jpLog__warn file func line msg ap w = Returns u w' \<Longrightarrow> user w' = user w"
  "jpLog__exit file func line msg ap w = Exits s w' \<Longrightarrow> user w' = user w"
  by (auto simp: jpLog__info_cases jpLog__warn_cases jpLog__exit_cases split: sum.splits)

lemma jpLog__exit_no_return: "jpLog__exit file func line msg ap w \<noteq> Returns u w'"
  by (simp add: jpLog__exit_cases split: sum.splits)







lemmas eval_line =
  log_line_def log_prefix_def color_wrapped_def dec_int_def dec_nat.simps digit_char_def

subsection \<open>Info and Warn\<close>



subsection \<open>Exit\<close>



subsection \<open>A message longer than the scratch buffer\<close>

lemma jpLog__info_overrun:
  "vformat msg ap = Inr text \<Longrightarrow> MSGBUFF_SIZE \<le> length text \<Longrightarrow>
   jpLog__info file func line msg ap w = Faults Buffer_Overrun"
  by (simp add: jpLog__info_cases vsprintf_overrun)

lemma jpLog__warn_overrun:
  "vformat msg ap = Inr text \<Longrightarrow> MSGBUFF_SIZE \<le> length text \<Longrightarrow>
   jpLog__warn file func line msg ap w = Faults Buffer_Overrun"
  by (simp add: jpLog__warn_cases vsprintf_overrun)

lemma jpLog__exit_overrun:
  "vformat msg ap = Inr text \<Longrightarrow> MSGBUFF_SIZE \<le> length text \<Longrightarrow>
   jpLog__exit file func line msg ap w = Faults Buffer_Overrun"
  by (simp add: jpLog__exit_cases vsprintf_overrun)

text \<open>
  C3. The specification asks for a message of 2000 characters to be cut to 1023
  and printed. The code does not do so: \<open>vsprintf\<close> has no bound, and the 2000
  characters and the terminator are stored through and past the 1024 bytes of
  \<open>msgbuff\<close>. In each of the three functions the call is undefined and no line
  is written.
\<close>

theorem jpLog_message_of_2000_chars_overruns:
  "jpLog__info ''a.c'' ''main'' 10 ''%s'' [ArgStr (replicate 2000 CHR ''a'')] w =
     Faults Buffer_Overrun
   \<and> jpLog__warn ''a.c'' ''main'' 10 ''%s'' [ArgStr (replicate 2000 CHR ''a'')] w =
     Faults Buffer_Overrun
   \<and> jpLog__exit ''a.c'' ''main'' 10 ''%s'' [ArgStr (replicate 2000 CHR ''a'')] w =
     Faults Buffer_Overrun"
proof -
  have r: "vformat ''%s'' [ArgStr (replicate 2000 CHR ''a'')] = Inr (replicate 2000 CHR ''a'')"
    by (rule vformat_percent_s)
  have l: "MSGBUFF_SIZE \<le> length (replicate 2000 CHR ''a'')"
    by (simp add: MSGBUFF_SIZE_def)
  show ?thesis
    by (simp only: jpLog__info_overrun [OF r l] jpLog__warn_overrun [OF r l]
        jpLog__exit_overrun [OF r l] simp_thms)
qed

subsection \<open>The plain-message macros\<close>

lemma jpLog_info_fits:
  "length msg < MSGBUFF_SIZE \<Longrightarrow>
   jpLog_info file func line msg w =
     Returns () (w\<lparr>stdout_bytes := stdout_bytes w @
       log_line (color_wrapped ''34;1'' ''INFO'') file func (dec_int (sint line)) msg\<rparr>)"
  by (simp add: jpLog_info_def jpLog__info_cases vsprintf_fits)

lemma jpLog_warn_fits:
  "length msg < MSGBUFF_SIZE \<Longrightarrow>
   jpLog_warn file func line msg w =
     Returns () (w\<lparr>stderr_bytes := stderr_bytes w @
       log_line (color_wrapped ''33;1'' ''WARN'') file func (dec_int (sint line)) msg\<rparr>)"
  by (simp add: jpLog_warn_def jpLog__warn_cases vsprintf_fits)

lemma jpLog_exit_fits:
  "length msg < MSGBUFF_SIZE \<Longrightarrow>
   jpLog_exit file func line msg w =
     Exits EXIT_FAILURE (w\<lparr>stderr_bytes := stderr_bytes w @
       log_line (color_wrapped ''31;1'' ''EXIT'') file func (dec_int (sint line)) msg\<rparr>)"
  by (simp add: jpLog_exit_def jpLog__exit_cases vsprintf_fits)

text \<open>
  C8. \<open>jpLog_info\<close>, \<open>jpLog_warn\<close> and \<open>jpLog_exit\<close> hand the message to the
  function as the argument of the fixed template \<^verbatim>\<open>"%s"\<close>. Rendering that template
  gives the message itself, whatever characters it holds, and a message that
  fits the buffer appears unchanged in the line: a percent sign in it is never
  read as a conversion.
\<close>

theorem plain_message_is_not_a_template:
  "vformat ''%s'' [ArgStr msg] = Inr msg
   \<and> (length msg < MSGBUFF_SIZE \<longrightarrow>
      jpLog_info file func line msg w =
        Returns () (w\<lparr>stdout_bytes := stdout_bytes w @
          log_line (color_wrapped ''34;1'' ''INFO'') file func (dec_int (sint line)) msg\<rparr>)
      \<and> jpLog_warn file func line msg w =
        Returns () (w\<lparr>stderr_bytes := stderr_bytes w @
          log_line (color_wrapped ''33;1'' ''WARN'') file func (dec_int (sint line)) msg\<rparr>)
      \<and> jpLog_exit file func line msg w =
        Exits EXIT_FAILURE (w\<lparr>stderr_bytes := stderr_bytes w @
          log_line (color_wrapped ''31;1'' ''EXIT'') file func (dec_int (sint line)) msg\<rparr>))"
  by (simp add: jpLog_info_fits jpLog_warn_fits jpLog_exit_fits)

theorem plain_message_is_not_a_template_witness:
  "length ''100%s done %d%%'' < MSGBUFF_SIZE
   \<and> jpLog_info ''a.c'' ''main'' 10 ''100%s done %d%%'' world0 =
       Returns () (world0\<lparr>stdout_bytes := ''['' @ [ESC] @ ''[34;1mINFO'' @ [ESC] @
         ''[0m][a.c][main][10]: 100%s done %d%%'' @ [NL]\<rparr>)
   \<and> jpLog_warn ''a.c'' ''main'' 10 ''100%s done %d%%'' world0 =
       Returns () (world0\<lparr>stderr_bytes := ''['' @ [ESC] @ ''[33;1mWARN'' @ [ESC] @
         ''[0m][a.c][main][10]: 100%s done %d%%'' @ [NL]\<rparr>)
   \<and> jpLog_exit ''a.c'' ''main'' 10 ''100%s done %d%%'' world0 =
       Exits 1 (world0\<lparr>stderr_bytes := ''['' @ [ESC] @ ''[31;1mEXIT'' @ [ESC] @
         ''[0m][a.c][main][10]: 100%s done %d%%'' @ [NL]\<rparr>)"
proof -
  have l: "length ''100%s done %d%%'' < MSGBUFF_SIZE"
    by (simp add: MSGBUFF_SIZE_def)
  show ?thesis
    using l plain_message_is_not_a_template [of "''100%s done %d%%''" "''a.c''" "''main''" 10 world0]
    by (simp add: eval_line world0_def EXIT_FAILURE_def)
qed

subsection \<open>The guarded macros\<close>

lemma eval_pure_expr: "eval_expr (pure_expr f) w = Returns (f (user w)) w"
  by (simp add: eval_expr_def pure_expr_def)

lemma guarded_pure:
  assumes "\<And>u w'. m w = Returns u w' \<Longrightarrow> user w' = user w"
  shows "seq (eval_expr (pure_expr f))
           (\<lambda>c. if c \<noteq> 0 then seq m (\<lambda>_. eval_expr (pure_expr f))
              else eval_expr (pure_expr f)) w =
         (if f (user w) \<noteq> 0 then then_yield (f (user w)) (m w) else Returns (f (user w)) w)"
proof (cases "m w")
  case (Returns u w')
  with assms have "user w' = user w" by simp
  with Returns show ?thesis
    by (simp add: seq_def eval_pure_expr)
next
  case (Exits s w')
  then show ?thesis by (simp add: seq_def eval_pure_expr)
next
  case (Faults e)
  then show ?thesis by (simp add: seq_def eval_pure_expr)
qed

text \<open>
  C4. With a condition that has no side effects, of value \<open>c\<close> in the calling
  process, each of the six guarded forms does, when \<open>c\<close> is true (not zero),
  exactly what the unguarded form does on the same process, and yields \<open>c\<close>
  where that form returns (for the Exit tier the process ends as it does in
  \<open>jpLog_exit\<close>); when \<open>c\<close> is false it leaves the process untouched and
  yields \<open>c\<close>.
\<close>

theorem guarded_forms_follow_the_unguarded:
  "jpLog_infoIf file func line (pure_expr f) msg w =
     (if f (user w) \<noteq> 0 then then_yield (f (user w)) (jpLog_info file func line msg w)
      else Returns (f (user w)) w)
   \<and> jpLog_infoFmtIf file func line (pure_expr f) fmt va_args w =
     (if f (user w) \<noteq> 0
      then then_yield (f (user w)) (jpLog_infoFmt file func line fmt va_args w)
      else Returns (f (user w)) w)
   \<and> jpLog_warnIf file func line (pure_expr f) msg w =
     (if f (user w) \<noteq> 0 then then_yield (f (user w)) (jpLog_warn file func line msg w)
      else Returns (f (user w)) w)
   \<and> jpLog_warnFmtIf file func line (pure_expr f) fmt va_args w =
     (if f (user w) \<noteq> 0
      then then_yield (f (user w)) (jpLog_warnFmt file func line fmt va_args w)
      else Returns (f (user w)) w)
   \<and> jpLog_exitIf file func line (pure_expr f) msg w =
     (if f (user w) \<noteq> 0 then then_yield (f (user w)) (jpLog_exit file func line msg w)
      else Returns (f (user w)) w)
   \<and> jpLog_exitFmtIf file func line (pure_expr f) fmt va_args w =
     (if f (user w) \<noteq> 0
      then then_yield (f (user w)) (jpLog_exitFmt file func line fmt va_args w)
      else Returns (f (user w)) w)"
proof -
  have i: "\<And>m a u w'. jpLog__info file func line m a w = Returns u w' \<Longrightarrow> user w' = user w"
    by (rule emissions_keep_user)
  have wn: "\<And>m a u w'. jpLog__warn file func line m a w = Returns u w' \<Longrightarrow> user w' = user w"
    by (rule emissions_keep_user)
  have e: "\<And>m a u w'. jpLog__exit file func line m a w = Returns u w' \<Longrightarrow> user w' = user w"
    by (simp add: jpLog__exit_no_return)
  show ?thesis
    unfolding jpLog_infoIf_def jpLog_infoFmtIf_def jpLog_warnIf_def jpLog_warnFmtIf_def
      jpLog_exitIf_def jpLog_exitFmtIf_def
    by (simp only: guarded_pure [of "jpLog_info file func line msg", unfolded jpLog_info_def, OF i]
        guarded_pure [of "jpLog_infoFmt file func line fmt va_args", unfolded jpLog_infoFmt_def, OF i]
        guarded_pure [of "jpLog_warn file func line msg", unfolded jpLog_warn_def, OF wn]
        guarded_pure [of "jpLog_warnFmt file func line fmt va_args", unfolded jpLog_warnFmt_def, OF wn]
        guarded_pure [of "jpLog_exit file func line msg", unfolded jpLog_exit_def, OF e]
        guarded_pure [of "jpLog_exitFmt file func line fmt va_args", unfolded jpLog_exitFmt_def, OF e]
        jpLog_info_def jpLog_infoFmt_def jpLog_warn_def jpLog_warnFmt_def jpLog_exit_def
        jpLog_exitFmt_def simp_thms)
qed

theorem guarded_forms_follow_the_unguarded_witness:
  "jpLog_exitIf ''c.c'' ''init'' 5 (pure_expr (\<lambda>n. 0)) ''unreachable'' world0 =
     Returns 0 world0
   \<and> jpLog_exitIf ''c.c'' ''init'' 5 (pure_expr (\<lambda>n. 1)) ''unreachable'' world0 =
       Exits 1 (world0\<lparr>stderr_bytes :=
         ''['' @ [ESC] @ ''[31;1mEXIT'' @ [ESC] @ ''[0m][c.c][init][5]: unreachable'' @ [NL]\<rparr>)
   \<and> jpLog_infoIf ''a.c'' ''main'' 10 (pure_expr (\<lambda>n. if n = 0 then 5 else 0)) ''hi'' world0 =
       Returns 5 (world0\<lparr>stdout_bytes :=
         ''['' @ [ESC] @ ''[34;1mINFO'' @ [ESC] @ ''[0m][a.c][main][10]: hi'' @ [NL]\<rparr>)"
proof -
  have l: "length ''unreachable'' < MSGBUFF_SIZE" and l': "length ''hi'' < MSGBUFF_SIZE"
    by (simp_all add: MSGBUFF_SIZE_def)
  show ?thesis
    using
      guarded_forms_follow_the_unguarded
        [of "''c.c''" "''init''" 5 "\<lambda>n. 0" "''unreachable''" world0]
      guarded_forms_follow_the_unguarded
        [of "''c.c''" "''init''" 5 "\<lambda>n. 1" "''unreachable''" world0]
      guarded_forms_follow_the_unguarded
        [of "''a.c''" "''main''" 10 "\<lambda>n. if n = 0 then 5 else 0" "''hi''" world0]
    by (simp add: jpLog_exit_fits [OF l] jpLog_info_fits [OF l'] eval_line world0_def
        EXIT_FAILURE_def)
qed

subsection \<open>Conditions with side effects\<close>

lemma guarded_Returns:
  assumes "seq (eval_expr expr)
             (\<lambda>c. if c \<noteq> 0 then seq m (\<lambda>_. eval_expr expr) else eval_expr expr) w =
           Returns v w'"
    and "\<And>x u x'. m x = Returns u x' \<Longrightarrow> user x' = user x"
  shows "v = fst (expr (snd (expr (user w)))) \<and> user w' = snd (expr (snd (expr (user w))))"
  using assms
  by (auto simp: seq_def eval_expr_def split: prod.splits if_splits outcome.splits)

lemma guarded_Returns_test:
  assumes "seq (eval_expr expr)
             (\<lambda>c. if c \<noteq> 0 then seq m (\<lambda>_. eval_expr expr) else eval_expr expr) w =
           Returns v w'"
    and "\<And>x u x'. m x \<noteq> Returns u x'"
  shows "fst (expr (user w)) = 0"
  using assms
  by (auto simp: seq_def eval_expr_def split: prod.splits if_splits outcome.splits)

lemma guarded_Exits:
  assumes "seq (eval_expr expr)
             (\<lambda>c. if c \<noteq> 0 then seq m (\<lambda>_. eval_expr expr) else eval_expr expr) w =
           Exits s w'"
    and "\<And>x s x'. m x = Exits s x' \<Longrightarrow> user x' = user x"
  shows "fst (expr (user w)) \<noteq> 0 \<and> user w' = snd (expr (user w))"
  using assms
  by (auto simp: seq_def eval_expr_def split: prod.splits if_splits outcome.splits)

text \<open>The first evaluation is the branch test: the unguarded call runs, on the
  process as that evaluation left it, exactly when its value is not zero.\<close>

lemma guarded_Returns_emission:
  fixes m :: "'u world \<Rightarrow> (unit, 'u) outcome"
  assumes "seq (eval_expr expr)
             (\<lambda>c. if c \<noteq> 0 then seq m (\<lambda>_. eval_expr expr) else eval_expr expr) w =
           Returns v w'"
    and "\<And>x u x'. m x = Returns u x' \<Longrightarrow> user x' = user x"
  shows "if fst (expr (user w)) \<noteq> 0
         then m (w\<lparr>user := snd (expr (user w))\<rparr>) =
                Returns () (w'\<lparr>user := snd (expr (user w))\<rparr>)
         else w' = w\<lparr>user := snd (expr (snd (expr (user w))))\<rparr>"
proof (cases "fst (expr (user w)) \<noteq> 0")
  case True
  let ?w1 = "w\<lparr>user := snd (expr (user w))\<rparr>"
  from assms(1) True have s: "seq m (\<lambda>_. eval_expr expr) ?w1 = Returns v w'"
    by (simp add: seq_def [of "eval_expr expr"] eval_expr_def split: prod.splits)
  then obtain u x where x: "m ?w1 = Returns u x" and e: "eval_expr expr x = Returns v w'"
    by (auto simp: seq_def split: outcome.splits)
  from assms(2) [OF x] have k: "user x = snd (expr (user w))" by simp
  from e have "w' = x\<lparr>user := snd (expr (user x))\<rparr>"
    by (auto simp: eval_expr_def split: prod.splits)
  then have "w'\<lparr>user := snd (expr (user w))\<rparr> = x\<lparr>user := user x\<rparr>"
    using k by simp
  then have "w'\<lparr>user := snd (expr (user w))\<rparr> = x" by simp
  with x True show ?thesis by simp
next
  case False
  with assms(1) show ?thesis
    by (auto simp: seq_def eval_expr_def split: prod.splits)
qed

lemma guarded_Exits_emission:
  assumes "seq (eval_expr expr)
             (\<lambda>c. if c \<noteq> 0 then seq m (\<lambda>_. eval_expr expr) else eval_expr expr) w =
           Exits s w'"
  shows "m (w\<lparr>user := snd (expr (user w))\<rparr>) = Exits s w'"
  using assms
  by (auto simp: seq_def eval_expr_def split: prod.splits if_splits outcome.splits)

text \<open>
  C9, amended. Whenever an enabled guarded form yields a value, its condition
  has been evaluated twice, once as the branch test and once again for the
  value: the first evaluation alone decides whether the line is written (the
  unguarded form runs, on the process as the first evaluation left it, exactly
  when that value is not zero), the value yielded is that of the second
  evaluation, and the caller's variables are those after two evaluations. This
  is every completed call of the Info and Warn forms, and of the Exit forms
  those whose test is false, which write nothing. When the test of an Exit form
  is true, \<open>jpLog_exit\<close> runs after that one evaluation and ends the process:
  the condition is evaluated once only.
\<close>

theorem condition_evaluated_twice_when_the_form_yields:
  "(jpLog_infoIf file func line expr msg w = Returns v w' \<longrightarrow>
      v = fst (expr (snd (expr (user w)))) \<and> user w' = snd (expr (snd (expr (user w))))
      \<and> (if fst (expr (user w)) \<noteq> 0
         then jpLog_info file func line msg (w\<lparr>user := snd (expr (user w))\<rparr>) =
                Returns () (w'\<lparr>user := snd (expr (user w))\<rparr>)
         else w' = w\<lparr>user := snd (expr (snd (expr (user w))))\<rparr>))
   \<and> (jpLog_infoFmtIf file func line expr fmt va_args w = Returns v w' \<longrightarrow>
      v = fst (expr (snd (expr (user w)))) \<and> user w' = snd (expr (snd (expr (user w))))
      \<and> (if fst (expr (user w)) \<noteq> 0
         then jpLog_infoFmt file func line fmt va_args (w\<lparr>user := snd (expr (user w))\<rparr>) =
                Returns () (w'\<lparr>user := snd (expr (user w))\<rparr>)
         else w' = w\<lparr>user := snd (expr (snd (expr (user w))))\<rparr>))
   \<and> (jpLog_warnIf file func line expr msg w = Returns v w' \<longrightarrow>
      v = fst (expr (snd (expr (user w)))) \<and> user w' = snd (expr (snd (expr (user w))))
      \<and> (if fst (expr (user w)) \<noteq> 0
         then jpLog_warn file func line msg (w\<lparr>user := snd (expr (user w))\<rparr>) =
                Returns () (w'\<lparr>user := snd (expr (user w))\<rparr>)
         else w' = w\<lparr>user := snd (expr (snd (expr (user w))))\<rparr>))
   \<and> (jpLog_warnFmtIf file func line expr fmt va_args w = Returns v w' \<longrightarrow>
      v = fst (expr (snd (expr (user w)))) \<and> user w' = snd (expr (snd (expr (user w))))
      \<and> (if fst (expr (user w)) \<noteq> 0
         then jpLog_warnFmt file func line fmt va_args (w\<lparr>user := snd (expr (user w))\<rparr>) =
                Returns () (w'\<lparr>user := snd (expr (user w))\<rparr>)
         else w' = w\<lparr>user := snd (expr (snd (expr (user w))))\<rparr>))
   \<and> (jpLog_exitIf file func line expr msg w = Returns v w' \<longrightarrow>
      fst (expr (user w)) = 0
      \<and> v = fst (expr (snd (expr (user w)))) \<and> user w' = snd (expr (snd (expr (user w))))
      \<and> w' = w\<lparr>user := snd (expr (snd (expr (user w))))\<rparr>)
   \<and> (jpLog_exitFmtIf file func line expr fmt va_args w = Returns v w' \<longrightarrow>
      fst (expr (user w)) = 0
      \<and> v = fst (expr (snd (expr (user w)))) \<and> user w' = snd (expr (snd (expr (user w))))
      \<and> w' = w\<lparr>user := snd (expr (snd (expr (user w))))\<rparr>)
   \<and> (jpLog_exitIf file func line expr msg w = Exits s w' \<longrightarrow>
      fst (expr (user w)) \<noteq> 0 \<and> user w' = snd (expr (user w))
      \<and> jpLog_exit file func line msg (w\<lparr>user := snd (expr (user w))\<rparr>) = Exits s w')
   \<and> (jpLog_exitFmtIf file func line expr fmt va_args w = Exits s w' \<longrightarrow>
      fst (expr (user w)) \<noteq> 0 \<and> user w' = snd (expr (user w))
      \<and> jpLog_exitFmt file func line fmt va_args (w\<lparr>user := snd (expr (user w))\<rparr>) = Exits s w')"
proof -
  have c1: "jpLog_infoIf file func line expr msg w = Returns v w' \<longrightarrow>
      v = fst (expr (snd (expr (user w)))) \<and> user w' = snd (expr (snd (expr (user w))))
      \<and> (if fst (expr (user w)) \<noteq> 0
         then jpLog_info file func line msg (w\<lparr>user := snd (expr (user w))\<rparr>) =
                Returns () (w'\<lparr>user := snd (expr (user w))\<rparr>)
         else w' = w\<lparr>user := snd (expr (snd (expr (user w))))\<rparr>)"
    unfolding jpLog_infoIf_def jpLog_info_def
  proof
    assume a: "seq (eval_expr expr) (\<lambda>c. if c \<noteq> 0 then seq (jpLog__info file func line ''%s'' [ArgStr msg]) (\<lambda>_. eval_expr expr)
      else eval_expr expr) w = Returns v w'"
    have r: "v = fst (expr (snd (expr (user w)))) \<and> user w' = snd (expr (snd (expr (user w))))"
      by (rule guarded_Returns [OF a]) (erule emissions_keep_user)
    have e: "if fst (expr (user w)) \<noteq> 0
         then jpLog__info file func line ''%s'' [ArgStr msg] (w\<lparr>user := snd (expr (user w))\<rparr>) =
                Returns () (w'\<lparr>user := snd (expr (user w))\<rparr>)
         else w' = w\<lparr>user := snd (expr (snd (expr (user w))))\<rparr>"
      by (rule guarded_Returns_emission [OF a]) (erule emissions_keep_user)
    from r e show "v = fst (expr (snd (expr (user w)))) \<and> user w' = snd (expr (snd (expr (user w))))
      \<and> (if fst (expr (user w)) \<noteq> 0
         then jpLog__info file func line ''%s'' [ArgStr msg] (w\<lparr>user := snd (expr (user w))\<rparr>) =
                Returns () (w'\<lparr>user := snd (expr (user w))\<rparr>)
         else w' = w\<lparr>user := snd (expr (snd (expr (user w))))\<rparr>)"
      by (simp only: simp_thms)
  qed
  have c2: "jpLog_infoFmtIf file func line expr fmt va_args w = Returns v w' \<longrightarrow>
      v = fst (expr (snd (expr (user w)))) \<and> user w' = snd (expr (snd (expr (user w))))
      \<and> (if fst (expr (user w)) \<noteq> 0
         then jpLog_infoFmt file func line fmt va_args (w\<lparr>user := snd (expr (user w))\<rparr>) =
                Returns () (w'\<lparr>user := snd (expr (user w))\<rparr>)
         else w' = w\<lparr>user := snd (expr (snd (expr (user w))))\<rparr>)"
    unfolding jpLog_infoFmtIf_def jpLog_infoFmt_def
  proof
    assume a: "seq (eval_expr expr) (\<lambda>c. if c \<noteq> 0 then seq (jpLog__info file func line fmt va_args) (\<lambda>_. eval_expr expr)
      else eval_expr expr) w = Returns v w'"
    have r: "v = fst (expr (snd (expr (user w)))) \<and> user w' = snd (expr (snd (expr (user w))))"
      by (rule guarded_Returns [OF a]) (erule emissions_keep_user)
    have e: "if fst (expr (user w)) \<noteq> 0
         then jpLog__info file func line fmt va_args (w\<lparr>user := snd (expr (user w))\<rparr>) =
                Returns () (w'\<lparr>user := snd (expr (user w))\<rparr>)
         else w' = w\<lparr>user := snd (expr (snd (expr (user w))))\<rparr>"
      by (rule guarded_Returns_emission [OF a]) (erule emissions_keep_user)
    from r e show "v = fst (expr (snd (expr (user w)))) \<and> user w' = snd (expr (snd (expr (user w))))
      \<and> (if fst (expr (user w)) \<noteq> 0
         then jpLog__info file func line fmt va_args (w\<lparr>user := snd (expr (user w))\<rparr>) =
                Returns () (w'\<lparr>user := snd (expr (user w))\<rparr>)
         else w' = w\<lparr>user := snd (expr (snd (expr (user w))))\<rparr>)"
      by (simp only: simp_thms)
  qed
  have c3: "jpLog_warnIf file func line expr msg w = Returns v w' \<longrightarrow>
      v = fst (expr (snd (expr (user w)))) \<and> user w' = snd (expr (snd (expr (user w))))
      \<and> (if fst (expr (user w)) \<noteq> 0
         then jpLog_warn file func line msg (w\<lparr>user := snd (expr (user w))\<rparr>) =
                Returns () (w'\<lparr>user := snd (expr (user w))\<rparr>)
         else w' = w\<lparr>user := snd (expr (snd (expr (user w))))\<rparr>)"
    unfolding jpLog_warnIf_def jpLog_warn_def
  proof
    assume a: "seq (eval_expr expr) (\<lambda>c. if c \<noteq> 0 then seq (jpLog__warn file func line ''%s'' [ArgStr msg]) (\<lambda>_. eval_expr expr)
      else eval_expr expr) w = Returns v w'"
    have r: "v = fst (expr (snd (expr (user w)))) \<and> user w' = snd (expr (snd (expr (user w))))"
      by (rule guarded_Returns [OF a]) (erule emissions_keep_user)
    have e: "if fst (expr (user w)) \<noteq> 0
         then jpLog__warn file func line ''%s'' [ArgStr msg] (w\<lparr>user := snd (expr (user w))\<rparr>) =
                Returns () (w'\<lparr>user := snd (expr (user w))\<rparr>)
         else w' = w\<lparr>user := snd (expr (snd (expr (user w))))\<rparr>"
      by (rule guarded_Returns_emission [OF a]) (erule emissions_keep_user)
    from r e show "v = fst (expr (snd (expr (user w)))) \<and> user w' = snd (expr (snd (expr (user w))))
      \<and> (if fst (expr (user w)) \<noteq> 0
         then jpLog__warn file func line ''%s'' [ArgStr msg] (w\<lparr>user := snd (expr (user w))\<rparr>) =
                Returns () (w'\<lparr>user := snd (expr (user w))\<rparr>)
         else w' = w\<lparr>user := snd (expr (snd (expr (user w))))\<rparr>)"
      by (simp only: simp_thms)
  qed
  have c4: "jpLog_warnFmtIf file func line expr fmt va_args w = Returns v w' \<longrightarrow>
      v = fst (expr (snd (expr (user w)))) \<and> user w' = snd (expr (snd (expr (user w))))
      \<and> (if fst (expr (user w)) \<noteq> 0
         then jpLog_warnFmt file func line fmt va_args (w\<lparr>user := snd (expr (user w))\<rparr>) =
                Returns () (w'\<lparr>user := snd (expr (user w))\<rparr>)
         else w' = w\<lparr>user := snd (expr (snd (expr (user w))))\<rparr>)"
    unfolding jpLog_warnFmtIf_def jpLog_warnFmt_def
  proof
    assume a: "seq (eval_expr expr) (\<lambda>c. if c \<noteq> 0 then seq (jpLog__warn file func line fmt va_args) (\<lambda>_. eval_expr expr)
      else eval_expr expr) w = Returns v w'"
    have r: "v = fst (expr (snd (expr (user w)))) \<and> user w' = snd (expr (snd (expr (user w))))"
      by (rule guarded_Returns [OF a]) (erule emissions_keep_user)
    have e: "if fst (expr (user w)) \<noteq> 0
         then jpLog__warn file func line fmt va_args (w\<lparr>user := snd (expr (user w))\<rparr>) =
                Returns () (w'\<lparr>user := snd (expr (user w))\<rparr>)
         else w' = w\<lparr>user := snd (expr (snd (expr (user w))))\<rparr>"
      by (rule guarded_Returns_emission [OF a]) (erule emissions_keep_user)
    from r e show "v = fst (expr (snd (expr (user w)))) \<and> user w' = snd (expr (snd (expr (user w))))
      \<and> (if fst (expr (user w)) \<noteq> 0
         then jpLog__warn file func line fmt va_args (w\<lparr>user := snd (expr (user w))\<rparr>) =
                Returns () (w'\<lparr>user := snd (expr (user w))\<rparr>)
         else w' = w\<lparr>user := snd (expr (snd (expr (user w))))\<rparr>)"
      by (simp only: simp_thms)
  qed
  have c5: "jpLog_exitIf file func line expr msg w = Returns v w' \<longrightarrow>
      fst (expr (user w)) = 0
      \<and> v = fst (expr (snd (expr (user w)))) \<and> user w' = snd (expr (snd (expr (user w))))
      \<and> w' = w\<lparr>user := snd (expr (snd (expr (user w))))\<rparr>"
    unfolding jpLog_exitIf_def jpLog_exit_def
  proof
    assume a: "seq (eval_expr expr) (\<lambda>c. if c \<noteq> 0 then seq (jpLog__exit file func line ''%s'' [ArgStr msg]) (\<lambda>_. eval_expr expr)
      else eval_expr expr) w = Returns v w'"
    have t: "fst (expr (user w)) = 0"
      by (rule guarded_Returns_test [OF a]) (rule jpLog__exit_no_return)
    have r: "v = fst (expr (snd (expr (user w)))) \<and> user w' = snd (expr (snd (expr (user w))))"
      by (rule guarded_Returns [OF a]) (simp add: jpLog__exit_no_return)
    have "if fst (expr (user w)) \<noteq> 0
         then jpLog__exit file func line ''%s'' [ArgStr msg] (w\<lparr>user := snd (expr (user w))\<rparr>) =
                Returns () (w'\<lparr>user := snd (expr (user w))\<rparr>)
         else w' = w\<lparr>user := snd (expr (snd (expr (user w))))\<rparr>"
      by (rule guarded_Returns_emission [OF a]) (simp add: jpLog__exit_no_return)
    with t have e: "w' = w\<lparr>user := snd (expr (snd (expr (user w))))\<rparr>"
      by simp
    from t r e show "fst (expr (user w)) = 0
      \<and> v = fst (expr (snd (expr (user w)))) \<and> user w' = snd (expr (snd (expr (user w))))
      \<and> w' = w\<lparr>user := snd (expr (snd (expr (user w))))\<rparr>"
      by (simp only: simp_thms)
  qed
  have c6: "jpLog_exitFmtIf file func line expr fmt va_args w = Returns v w' \<longrightarrow>
      fst (expr (user w)) = 0
      \<and> v = fst (expr (snd (expr (user w)))) \<and> user w' = snd (expr (snd (expr (user w))))
      \<and> w' = w\<lparr>user := snd (expr (snd (expr (user w))))\<rparr>"
    unfolding jpLog_exitFmtIf_def jpLog_exitFmt_def
  proof
    assume a: "seq (eval_expr expr) (\<lambda>c. if c \<noteq> 0 then seq (jpLog__exit file func line fmt va_args) (\<lambda>_. eval_expr expr)
      else eval_expr expr) w = Returns v w'"
    have t: "fst (expr (user w)) = 0"
      by (rule guarded_Returns_test [OF a]) (rule jpLog__exit_no_return)
    have r: "v = fst (expr (snd (expr (user w)))) \<and> user w' = snd (expr (snd (expr (user w))))"
      by (rule guarded_Returns [OF a]) (simp add: jpLog__exit_no_return)
    have "if fst (expr (user w)) \<noteq> 0
         then jpLog__exit file func line fmt va_args (w\<lparr>user := snd (expr (user w))\<rparr>) =
                Returns () (w'\<lparr>user := snd (expr (user w))\<rparr>)
         else w' = w\<lparr>user := snd (expr (snd (expr (user w))))\<rparr>"
      by (rule guarded_Returns_emission [OF a]) (simp add: jpLog__exit_no_return)
    with t have e: "w' = w\<lparr>user := snd (expr (snd (expr (user w))))\<rparr>"
      by simp
    from t r e show "fst (expr (user w)) = 0
      \<and> v = fst (expr (snd (expr (user w)))) \<and> user w' = snd (expr (snd (expr (user w))))
      \<and> w' = w\<lparr>user := snd (expr (snd (expr (user w))))\<rparr>"
      by (simp only: simp_thms)
  qed
  have c7: "jpLog_exitIf file func line expr msg w = Exits s w' \<longrightarrow>
      fst (expr (user w)) \<noteq> 0 \<and> user w' = snd (expr (user w))
      \<and> jpLog_exit file func line msg (w\<lparr>user := snd (expr (user w))\<rparr>) = Exits s w'"
    unfolding jpLog_exitIf_def jpLog_exit_def
  proof
    assume a: "seq (eval_expr expr) (\<lambda>c. if c \<noteq> 0 then seq (jpLog__exit file func line ''%s'' [ArgStr msg]) (\<lambda>_. eval_expr expr)
      else eval_expr expr) w = Exits s w'"
    have r: "fst (expr (user w)) \<noteq> 0 \<and> user w' = snd (expr (user w))"
      by (rule guarded_Exits [OF a]) (erule emissions_keep_user)
    have e: "jpLog__exit file func line ''%s'' [ArgStr msg] (w\<lparr>user := snd (expr (user w))\<rparr>) = Exits s w'"
      by (rule guarded_Exits_emission [OF a])
    from r e show "fst (expr (user w)) \<noteq> 0 \<and> user w' = snd (expr (user w))
      \<and> jpLog__exit file func line ''%s'' [ArgStr msg] (w\<lparr>user := snd (expr (user w))\<rparr>) = Exits s w'"
      by (simp only: simp_thms)
  qed
  have c8: "jpLog_exitFmtIf file func line expr fmt va_args w = Exits s w' \<longrightarrow>
      fst (expr (user w)) \<noteq> 0 \<and> user w' = snd (expr (user w))
      \<and> jpLog_exitFmt file func line fmt va_args (w\<lparr>user := snd (expr (user w))\<rparr>) = Exits s w'"
    unfolding jpLog_exitFmtIf_def jpLog_exitFmt_def
  proof
    assume a: "seq (eval_expr expr) (\<lambda>c. if c \<noteq> 0 then seq (jpLog__exit file func line fmt va_args) (\<lambda>_. eval_expr expr)
      else eval_expr expr) w = Exits s w'"
    have r: "fst (expr (user w)) \<noteq> 0 \<and> user w' = snd (expr (user w))"
      by (rule guarded_Exits [OF a]) (erule emissions_keep_user)
    have e: "jpLog__exit file func line fmt va_args (w\<lparr>user := snd (expr (user w))\<rparr>) = Exits s w'"
      by (rule guarded_Exits_emission [OF a])
    from r e show "fst (expr (user w)) \<noteq> 0 \<and> user w' = snd (expr (user w))
      \<and> jpLog__exit file func line fmt va_args (w\<lparr>user := snd (expr (user w))\<rparr>) = Exits s w'"
      by (simp only: simp_thms)
  qed
  from c1 c2 c3 c4 c5 c6 c7 c8 show ?thesis by (simp only: simp_thms)
qed

theorem condition_evaluated_twice_when_the_form_yields_witness:
  "jpLog_infoIf ''a.c'' ''main'' 10 (flipping 1 0) ''hi'' world0 =
       Returns 0 (world0\<lparr>stdout_bytes :=
           ''['' @ [ESC] @ ''[34;1mINFO'' @ [ESC] @ ''[0m][a.c][main][10]: hi'' @ [NL],
           user := 2\<rparr>)
   \<and> jpLog_info ''a.c'' ''main'' 10 ''hi'' (world0\<lparr>user := 1\<rparr>) =
       Returns () (world0\<lparr>stdout_bytes :=
           ''['' @ [ESC] @ ''[34;1mINFO'' @ [ESC] @ ''[0m][a.c][main][10]: hi'' @ [NL],
           user := 1\<rparr>)
   \<and> jpLog_infoFmtIf ''a.c'' ''main'' 10 (flipping 0 1) ''n=%d'' [ArgInt 7] world0 =
       Returns 1 (world0\<lparr>user := 2\<rparr>)
   \<and> fst (flipping 0 1 (snd (flipping 0 1 (user world0)))) = 1
   \<and> jpLog_warnIf ''a.c'' ''main'' 10 (flipping 1 0) ''hi'' world0 =
       Returns 0 (world0\<lparr>stderr_bytes :=
           ''['' @ [ESC] @ ''[33;1mWARN'' @ [ESC] @ ''[0m][a.c][main][10]: hi'' @ [NL],
           user := 2\<rparr>)
   \<and> jpLog_warn ''a.c'' ''main'' 10 ''hi'' (world0\<lparr>user := 1\<rparr>) =
       Returns () (world0\<lparr>stderr_bytes :=
           ''['' @ [ESC] @ ''[33;1mWARN'' @ [ESC] @ ''[0m][a.c][main][10]: hi'' @ [NL],
           user := 1\<rparr>)
   \<and> jpLog_warnFmtIf ''a.c'' ''main'' 10 (flipping 0 1) ''n=%d'' [ArgInt 7] world0 =
       Returns 1 (world0\<lparr>user := 2\<rparr>)
   \<and> fst (flipping 0 1 (snd (flipping 0 1 (user world0)))) = 1
   \<and> jpLog_exitIf ''a.c'' ''main'' 10 (flipping 0 1) ''hi'' world0 =
       Returns 1 (world0\<lparr>user := 2\<rparr>)
   \<and> fst (flipping 0 1 (user world0)) = 0
   \<and> jpLog_exitFmtIf ''a.c'' ''main'' 10 (counting 0) ''n=%d'' [ArgInt 7] world0 =
       Returns 0 (world0\<lparr>user := 2\<rparr>)
   \<and> fst (counting 0 (user world0)) = 0
   \<and> jpLog_exitIf ''a.c'' ''main'' 10 (flipping 1 0) ''hi'' world0 =
       Exits 1 (world0\<lparr>stderr_bytes :=
           ''['' @ [ESC] @ ''[31;1mEXIT'' @ [ESC] @ ''[0m][a.c][main][10]: hi'' @ [NL],
           user := 1\<rparr>)
   \<and> jpLog_exit ''a.c'' ''main'' 10 ''hi'' (world0\<lparr>user := 1\<rparr>) =
       Exits 1 (world0\<lparr>stderr_bytes :=
           ''['' @ [ESC] @ ''[31;1mEXIT'' @ [ESC] @ ''[0m][a.c][main][10]: hi'' @ [NL],
           user := 1\<rparr>)
   \<and> jpLog_exitFmtIf ''a.c'' ''main'' 10 (counting 1) ''n=%d'' [ArgInt 7] world0 =
       Exits 1 (world0\<lparr>stderr_bytes :=
           ''['' @ [ESC] @ ''[31;1mEXIT'' @ [ESC] @ ''[0m][a.c][main][10]: n=7'' @ [NL],
           user := 1\<rparr>)
   \<and> user (world0\<lparr>stderr_bytes :=
           ''['' @ [ESC] @ ''[31;1mEXIT'' @ [ESC] @ ''[0m][a.c][main][10]: n=7'' @ [NL],
           user := 1\<rparr>) =
       snd (counting 1 (user world0))"
proof -
  have h1: "jpLog_infoIf ''a.c'' ''main'' 10 (flipping 1 0) ''hi'' world0 =
       Returns 0 (world0\<lparr>stdout_bytes :=
           ''['' @ [ESC] @ ''[34;1mINFO'' @ [ESC] @ ''[0m][a.c][main][10]: hi'' @ [NL],
           user := 2\<rparr>)"
    by (simp add: jpLog_infoIf_def jpLog_info_def seq_def eval_expr_def flipping_def
        counting_def jpLog__info_cases vsprintf_def MSGBUFF_SIZE_def eval_line world0_def
        EXIT_FAILURE_def)
  have h2: "jpLog_infoFmtIf ''a.c'' ''main'' 10 (flipping 0 1) ''n=%d'' [ArgInt 7] world0 =
       Returns 1 (world0\<lparr>user := 2\<rparr>)"
    by (simp add: jpLog_infoFmtIf_def jpLog_infoFmt_def seq_def eval_expr_def flipping_def
        counting_def jpLog__info_cases vsprintf_def MSGBUFF_SIZE_def eval_line world0_def
        EXIT_FAILURE_def)
  have h3: "jpLog_warnIf ''a.c'' ''main'' 10 (flipping 1 0) ''hi'' world0 =
       Returns 0 (world0\<lparr>stderr_bytes :=
           ''['' @ [ESC] @ ''[33;1mWARN'' @ [ESC] @ ''[0m][a.c][main][10]: hi'' @ [NL],
           user := 2\<rparr>)"
    by (simp add: jpLog_warnIf_def jpLog_warn_def seq_def eval_expr_def flipping_def
        counting_def jpLog__warn_cases vsprintf_def MSGBUFF_SIZE_def eval_line world0_def
        EXIT_FAILURE_def)
  have h4: "jpLog_warnFmtIf ''a.c'' ''main'' 10 (flipping 0 1) ''n=%d'' [ArgInt 7] world0 =
       Returns 1 (world0\<lparr>user := 2\<rparr>)"
    by (simp add: jpLog_warnFmtIf_def jpLog_warnFmt_def seq_def eval_expr_def flipping_def
        counting_def jpLog__warn_cases vsprintf_def MSGBUFF_SIZE_def eval_line world0_def
        EXIT_FAILURE_def)
  have h5: "jpLog_exitIf ''a.c'' ''main'' 10 (flipping 0 1) ''hi'' world0 =
       Returns 1 (world0\<lparr>user := 2\<rparr>)"
    by (simp add: jpLog_exitIf_def jpLog_exit_def seq_def eval_expr_def flipping_def
        counting_def jpLog__exit_cases vsprintf_def MSGBUFF_SIZE_def eval_line world0_def
        EXIT_FAILURE_def)
  have h6: "jpLog_exitFmtIf ''a.c'' ''main'' 10 (counting 0) ''n=%d'' [ArgInt 7] world0 =
       Returns 0 (world0\<lparr>user := 2\<rparr>)"
    by (simp add: jpLog_exitFmtIf_def jpLog_exitFmt_def seq_def eval_expr_def flipping_def
        counting_def jpLog__exit_cases vsprintf_def MSGBUFF_SIZE_def eval_line world0_def
        EXIT_FAILURE_def)
  have h7: "jpLog_exitIf ''a.c'' ''main'' 10 (flipping 1 0) ''hi'' world0 =
       Exits 1 (world0\<lparr>stderr_bytes :=
           ''['' @ [ESC] @ ''[31;1mEXIT'' @ [ESC] @ ''[0m][a.c][main][10]: hi'' @ [NL],
           user := 1\<rparr>)"
    by (simp add: jpLog_exitIf_def jpLog_exit_def seq_def eval_expr_def flipping_def
        counting_def jpLog__exit_cases vsprintf_def MSGBUFF_SIZE_def eval_line world0_def
        EXIT_FAILURE_def)
  have h8: "jpLog_exitFmtIf ''a.c'' ''main'' 10 (counting 1) ''n=%d'' [ArgInt 7] world0 =
       Exits 1 (world0\<lparr>stderr_bytes :=
           ''['' @ [ESC] @ ''[31;1mEXIT'' @ [ESC] @ ''[0m][a.c][main][10]: n=7'' @ [NL],
           user := 1\<rparr>)"
    by (simp add: jpLog_exitFmtIf_def jpLog_exitFmt_def seq_def eval_expr_def flipping_def
        counting_def jpLog__exit_cases vsprintf_def MSGBUFF_SIZE_def eval_line world0_def
        EXIT_FAILURE_def)
  from condition_evaluated_twice_when_the_form_yields
      [of "''a.c''" "''main''" 10 "flipping 1 0" "''hi''" world0 0
        "world0\<lparr>stdout_bytes :=
           ''['' @ [ESC] @ ''[34;1mINFO'' @ [ESC] @ ''[0m][a.c][main][10]: hi'' @ [NL],
           user := 2\<rparr>"
        "''n=%d''" "[ArgInt 7]" 1] h1
  have h1': "jpLog_info ''a.c'' ''main'' 10 ''hi'' (world0\<lparr>user := 1\<rparr>) =
       Returns () (world0\<lparr>stdout_bytes :=
           ''['' @ [ESC] @ ''[34;1mINFO'' @ [ESC] @ ''[0m][a.c][main][10]: hi'' @ [NL],
           user := 1\<rparr>)"
    by (simp add: flipping_def counting_def world0_def)
  from condition_evaluated_twice_when_the_form_yields
      [of "''a.c''" "''main''" 10 "flipping 0 1" "''hi''" world0 1
        "world0\<lparr>user := 2\<rparr>"
        "''n=%d''" "[ArgInt 7]" 1] h2
  have h2': "fst (flipping 0 1 (snd (flipping 0 1 (user world0)))) = 1"
    by (simp add: flipping_def counting_def world0_def)
  from condition_evaluated_twice_when_the_form_yields
      [of "''a.c''" "''main''" 10 "flipping 1 0" "''hi''" world0 0
        "world0\<lparr>stderr_bytes :=
           ''['' @ [ESC] @ ''[33;1mWARN'' @ [ESC] @ ''[0m][a.c][main][10]: hi'' @ [NL],
           user := 2\<rparr>"
        "''n=%d''" "[ArgInt 7]" 1] h3
  have h3': "jpLog_warn ''a.c'' ''main'' 10 ''hi'' (world0\<lparr>user := 1\<rparr>) =
       Returns () (world0\<lparr>stderr_bytes :=
           ''['' @ [ESC] @ ''[33;1mWARN'' @ [ESC] @ ''[0m][a.c][main][10]: hi'' @ [NL],
           user := 1\<rparr>)"
    by (simp add: flipping_def counting_def world0_def)
  from condition_evaluated_twice_when_the_form_yields
      [of "''a.c''" "''main''" 10 "flipping 0 1" "''hi''" world0 1
        "world0\<lparr>user := 2\<rparr>"
        "''n=%d''" "[ArgInt 7]" 1] h4
  have h4': "fst (flipping 0 1 (snd (flipping 0 1 (user world0)))) = 1"
    by (simp add: flipping_def counting_def world0_def)
  from condition_evaluated_twice_when_the_form_yields
      [of "''a.c''" "''main''" 10 "flipping 0 1" "''hi''" world0 1
        "world0\<lparr>user := 2\<rparr>"
        "''n=%d''" "[ArgInt 7]" 1] h5
  have h5': "fst (flipping 0 1 (user world0)) = 0"
    by (simp add: flipping_def counting_def world0_def)
  from condition_evaluated_twice_when_the_form_yields
      [of "''a.c''" "''main''" 10 "counting 0" "''hi''" world0 0
        "world0\<lparr>user := 2\<rparr>"
        "''n=%d''" "[ArgInt 7]" 1] h6
  have h6': "fst (counting 0 (user world0)) = 0"
    by (simp add: flipping_def counting_def world0_def)
  from condition_evaluated_twice_when_the_form_yields
      [of "''a.c''" "''main''" 10 "flipping 1 0" "''hi''" world0 1
        "world0\<lparr>stderr_bytes :=
           ''['' @ [ESC] @ ''[31;1mEXIT'' @ [ESC] @ ''[0m][a.c][main][10]: hi'' @ [NL],
           user := 1\<rparr>"
        "''n=%d''" "[ArgInt 7]" 1] h7
  have h7': "jpLog_exit ''a.c'' ''main'' 10 ''hi'' (world0\<lparr>user := 1\<rparr>) =
       Exits 1 (world0\<lparr>stderr_bytes :=
           ''['' @ [ESC] @ ''[31;1mEXIT'' @ [ESC] @ ''[0m][a.c][main][10]: hi'' @ [NL],
           user := 1\<rparr>)"
    by (simp add: flipping_def counting_def world0_def)
  from condition_evaluated_twice_when_the_form_yields
      [of "''a.c''" "''main''" 10 "counting 1" "''hi''" world0 1
        "world0\<lparr>stderr_bytes :=
           ''['' @ [ESC] @ ''[31;1mEXIT'' @ [ESC] @ ''[0m][a.c][main][10]: n=7'' @ [NL],
           user := 1\<rparr>"
        "''n=%d''" "[ArgInt 7]" 1] h8
  have h8': "user (world0\<lparr>stderr_bytes :=
           ''['' @ [ESC] @ ''[31;1mEXIT'' @ [ESC] @ ''[0m][a.c][main][10]: n=7'' @ [NL],
           user := 1\<rparr>) =
       snd (counting 1 (user world0))"
    by (simp add: flipping_def counting_def world0_def)
  from h1 h1' h2 h2' h3 h3' h4 h4' h5 h5' h6 h6' h7 h7' h8 h8' show ?thesis
    by (simp only: simp_thms)
qed

text \<open>
  The statement that every invocation evaluates the condition twice fails for
  the Exit tier: with a true condition that counts its evaluations, the process
  ends with the count at 1, where two evaluations would leave 2.
\<close>

theorem exitIf_true_evaluates_condition_once:
  "jpLog_exitIf ''c.c'' ''init'' 5 (counting 1) ''unreachable'' world0 =
     Exits 1 (world0\<lparr>stderr_bytes :=
        ''['' @ [ESC] @ ''[31;1mEXIT'' @ [ESC] @ ''[0m][c.c][init][5]: unreachable'' @ [NL],
        user := 1\<rparr>)
   \<and> snd (counting 1 (snd (counting 1 (user world0)))) = 2"
  by (simp add: jpLog_exitIf_def jpLog_exit_def seq_def eval_expr_def counting_def
      jpLog__exit_cases vsprintf_def MSGBUFF_SIZE_def eval_line world0_def EXIT_FAILURE_def)

subsection \<open>Tiers compiled out\<close>

lemma discard_value: "discard (return_value v) w = Returns () w"
  by (simp add: discard_def seq_def return_value_def)

lemma discard_values:
  "discard (seq (return_value a) (\<lambda>_. return_value b)) w = Returns () w"
  by (simp add: discard_def seq_def return_value_def)

lemma discard_expr:
  "discard (seq (eval_expr expr) (\<lambda>_. return_value v)) w =
     Returns () (w\<lparr>user := snd (expr (user w))\<rparr>)"
  by (simp add: discard_def seq_def return_value_def eval_expr_def split: prod.splits)

lemma discard_expr_values:
  "discard (seq (eval_expr expr) (\<lambda>_. seq (return_value a) (\<lambda>_. return_value b))) w =
     Returns () (w\<lparr>user := snd (expr (user w))\<rparr>)"
  by (simp add: discard_def seq_def return_value_def eval_expr_def split: prod.splits)

text \<open>
  C5. With \<^verbatim>\<open>JP_LOG_NOINFO\<close>, \<^verbatim>\<open>JP_LOG_NOWARN\<close> or \<^verbatim>\<open>JP_LOG_NOEXIT\<close> defined, each
  of the four macros of that tier takes its arguments, evaluates them once and
  drops the values: it returns, writes to neither stream and, in the Exit tier
  too, does not end the process. The process afterwards is the one in which
  the arguments have been evaluated and nothing else has happened.
\<close>

theorem disabled_tiers_do_nothing:
  "jpLog_info_NOINFO msg w = Returns () w
   \<and> jpLog_infoFmt_NOINFO fmt va_args w = Returns () w
   \<and> jpLog_infoIf_NOINFO expr msg w = Returns () (w\<lparr>user := snd (expr (user w))\<rparr>)
   \<and> jpLog_infoFmtIf_NOINFO expr fmt va_args w = Returns () (w\<lparr>user := snd (expr (user w))\<rparr>)
   \<and> jpLog_warn_NOWARN msg w = Returns () w
   \<and> jpLog_warnFmt_NOWARN fmt va_args w = Returns () w
   \<and> jpLog_warnIf_NOWARN expr msg w = Returns () (w\<lparr>user := snd (expr (user w))\<rparr>)
   \<and> jpLog_warnFmtIf_NOWARN expr fmt va_args w = Returns () (w\<lparr>user := snd (expr (user w))\<rparr>)
   \<and> jpLog_exit_NOEXIT msg w = Returns () w
   \<and> jpLog_exitFmt_NOEXIT fmt va_args w = Returns () w
   \<and> jpLog_exitIf_NOEXIT expr msg w = Returns () (w\<lparr>user := snd (expr (user w))\<rparr>)
   \<and> jpLog_exitFmtIf_NOEXIT expr fmt va_args w = Returns () (w\<lparr>user := snd (expr (user w))\<rparr>)"
  unfolding jpLog_info_NOINFO_def jpLog_infoFmt_NOINFO_def jpLog_infoIf_NOINFO_def
    jpLog_infoFmtIf_NOINFO_def jpLog_warn_NOWARN_def jpLog_warnFmt_NOWARN_def
    jpLog_warnIf_NOWARN_def jpLog_warnFmtIf_NOWARN_def jpLog_exit_NOEXIT_def
    jpLog_exitFmt_NOEXIT_def jpLog_exitIf_NOEXIT_def jpLog_exitFmtIf_NOEXIT_def
    discard_value discard_values discard_expr discard_expr_values
  by simp

theorem disabled_tiers_do_nothing_witness:
  "jpLog_exit_NOEXIT ''unreachable'' world0 = Returns () world0
   \<and> jpLog_exitIf_NOEXIT (pure_expr (\<lambda>n. 1)) ''unreachable'' world0 = Returns () world0
   \<and> jpLog_exitIf_NOEXIT (counting 1) ''unreachable'' world0 = Returns () (world0\<lparr>user := 1\<rparr>)
   \<and> jpLog_infoFmt_NOINFO ''value=%d'' [ArgInt 42] world0 = Returns () world0
   \<and> jpLog_warnFmtIf_NOWARN (counting 0) ''%s %s'' [ArgStr ''x''] world0 =
       Returns () (world0\<lparr>user := 1\<rparr>)"
  using disabled_tiers_do_nothing [of "''unreachable''" world0 "''value=%d''" "[ArgInt 42]"
      "pure_expr (\<lambda>n. 1)"]
    disabled_tiers_do_nothing [of "''unreachable''" world0 "''%s %s''" "[ArgStr ''x'']"
      "counting 1"]
    disabled_tiers_do_nothing [of "''unreachable''" world0 "''%s %s''" "[ArgStr ''x'']"
      "counting 0"]
  by (simp add: pure_expr_def counting_def world0_def)

subsection \<open>Colour and the destination stream\<close>

text \<open>
  C6, amended. Every line the three functions write carries its tag in the
  escape sequences (bold blue INFO, bold yellow WARN, bold red EXIT), whether
  or not the destination is a terminal: the code does not look at the stream,
  and the same call in a process whose streams are attached differently writes
  the same bytes.
\<close>

theorem tag_is_colored_whatever_the_stream:
  "(jpLog__info file func line msg ap w = Returns u w' \<longrightarrow>
      (\<exists>rest. stdout_bytes w' =
         stdout_bytes w @ ''['' @ color_wrapped ''34;1'' ''INFO'' @ '']'' @ rest)
      \<and> jpLog__info file func line msg ap (w\<lparr>stdout_isatty := t1, stderr_isatty := t2\<rparr>) =
          Returns u (w'\<lparr>stdout_isatty := t1, stderr_isatty := t2\<rparr>))
   \<and> (jpLog__warn file func line msg ap w = Returns u w' \<longrightarrow>
      (\<exists>rest. stderr_bytes w' =
         stderr_bytes w @ ''['' @ color_wrapped ''33;1'' ''WARN'' @ '']'' @ rest)
      \<and> jpLog__warn file func line msg ap (w\<lparr>stdout_isatty := t1, stderr_isatty := t2\<rparr>) =
          Returns u (w'\<lparr>stdout_isatty := t1, stderr_isatty := t2\<rparr>))
   \<and> (jpLog__exit file func line msg ap w = Exits s w' \<longrightarrow>
      (\<exists>rest. stderr_bytes w' =
         stderr_bytes w @ ''['' @ color_wrapped ''31;1'' ''EXIT'' @ '']'' @ rest)
      \<and> jpLog__exit file func line msg ap (w\<lparr>stdout_isatty := t1, stderr_isatty := t2\<rparr>) =
          Exits s (w'\<lparr>stdout_isatty := t1, stderr_isatty := t2\<rparr>))"
  by (auto simp: jpLog__info_cases jpLog__warn_cases jpLog__exit_cases log_line_def
      log_prefix_def split: sum.splits)

theorem tag_is_colored_whatever_the_stream_witness:
  "jpLog__info ''a.c'' ''main'' 10 ''%s'' [ArgStr ''hi''] world0 =
     Returns () (world0\<lparr>stdout_bytes :=
       ''['' @ [ESC] @ ''[34;1mINFO'' @ [ESC] @ ''[0m][a.c][main][10]: hi'' @ [NL]\<rparr>)
   \<and> jpLog__info ''a.c'' ''main'' 10 ''%s'' [ArgStr ''hi'']
       (world0\<lparr>stdout_isatty := True, stderr_isatty := True\<rparr>) =
     Returns () (world0\<lparr>stdout_bytes :=
       ''['' @ [ESC] @ ''[34;1mINFO'' @ [ESC] @ ''[0m][a.c][main][10]: hi'' @ [NL],
       stdout_isatty := True, stderr_isatty := True\<rparr>)
   \<and> jpLog__warn ''a.c'' ''main'' 10 ''%s'' [ArgStr ''hi''] world0 =
     Returns () (world0\<lparr>stderr_bytes :=
       ''['' @ [ESC] @ ''[33;1mWARN'' @ [ESC] @ ''[0m][a.c][main][10]: hi'' @ [NL]\<rparr>)
   \<and> jpLog__warn ''a.c'' ''main'' 10 ''%s'' [ArgStr ''hi'']
       (world0\<lparr>stdout_isatty := True, stderr_isatty := True\<rparr>) =
     Returns () (world0\<lparr>stderr_bytes :=
       ''['' @ [ESC] @ ''[33;1mWARN'' @ [ESC] @ ''[0m][a.c][main][10]: hi'' @ [NL],
       stdout_isatty := True, stderr_isatty := True\<rparr>)
   \<and> jpLog__exit ''a.c'' ''main'' 10 ''%s'' [ArgStr ''hi''] world0 =
     Exits 1 (world0\<lparr>stderr_bytes :=
       ''['' @ [ESC] @ ''[31;1mEXIT'' @ [ESC] @ ''[0m][a.c][main][10]: hi'' @ [NL]\<rparr>)
   \<and> jpLog__exit ''a.c'' ''main'' 10 ''%s'' [ArgStr ''hi'']
       (world0\<lparr>stdout_isatty := True, stderr_isatty := True\<rparr>) =
     Exits 1 (world0\<lparr>stderr_bytes :=
       ''['' @ [ESC] @ ''[31;1mEXIT'' @ [ESC] @ ''[0m][a.c][main][10]: hi'' @ [NL],
       stdout_isatty := True, stderr_isatty := True\<rparr>)"
proof -
  have i: "jpLog__info ''a.c'' ''main'' 10 ''%s'' [ArgStr ''hi''] world0 =
     Returns () (world0\<lparr>stdout_bytes :=
       ''['' @ [ESC] @ ''[34;1mINFO'' @ [ESC] @ ''[0m][a.c][main][10]: hi'' @ [NL]\<rparr>)"
    by (simp add: jpLog__info_cases vsprintf_def eval_line world0_def MSGBUFF_SIZE_def)
  have w: "jpLog__warn ''a.c'' ''main'' 10 ''%s'' [ArgStr ''hi''] world0 =
     Returns () (world0\<lparr>stderr_bytes :=
       ''['' @ [ESC] @ ''[33;1mWARN'' @ [ESC] @ ''[0m][a.c][main][10]: hi'' @ [NL]\<rparr>)"
    by (simp add: jpLog__warn_cases vsprintf_def eval_line world0_def MSGBUFF_SIZE_def)
  have e: "jpLog__exit ''a.c'' ''main'' 10 ''%s'' [ArgStr ''hi''] world0 =
     Exits 1 (world0\<lparr>stderr_bytes :=
       ''['' @ [ESC] @ ''[31;1mEXIT'' @ [ESC] @ ''[0m][a.c][main][10]: hi'' @ [NL]\<rparr>)"
    by (simp add: jpLog__exit_cases vsprintf_def eval_line world0_def MSGBUFF_SIZE_def
        EXIT_FAILURE_def)
  note t = tag_is_colored_whatever_the_stream [of "''a.c''" "''main''" 10 "''%s''"
      "[ArgStr ''hi'']" world0 "()" _ True True 1]
  from t i have i': "jpLog__info ''a.c'' ''main'' 10 ''%s'' [ArgStr ''hi'']
       (world0\<lparr>stdout_isatty := True, stderr_isatty := True\<rparr>) =
     Returns () (world0\<lparr>stdout_bytes :=
       ''['' @ [ESC] @ ''[34;1mINFO'' @ [ESC] @ ''[0m][a.c][main][10]: hi'' @ [NL],
       stdout_isatty := True, stderr_isatty := True\<rparr>)"
    by blast
  from t w have w': "jpLog__warn ''a.c'' ''main'' 10 ''%s'' [ArgStr ''hi'']
       (world0\<lparr>stdout_isatty := True, stderr_isatty := True\<rparr>) =
     Returns () (world0\<lparr>stderr_bytes :=
       ''['' @ [ESC] @ ''[33;1mWARN'' @ [ESC] @ ''[0m][a.c][main][10]: hi'' @ [NL],
       stdout_isatty := True, stderr_isatty := True\<rparr>)"
    by blast
  from t e have e': "jpLog__exit ''a.c'' ''main'' 10 ''%s'' [ArgStr ''hi'']
       (world0\<lparr>stdout_isatty := True, stderr_isatty := True\<rparr>) =
     Exits 1 (world0\<lparr>stderr_bytes :=
       ''['' @ [ESC] @ ''[31;1mEXIT'' @ [ESC] @ ''[0m][a.c][main][10]: hi'' @ [NL],
       stdout_isatty := True, stderr_isatty := True\<rparr>)"
    by blast
  from i i' w w' e e' show ?thesis by (simp only: simp_thms)
qed

text \<open>
  The statement that the escape sequences are absent when the stream is not a
  terminal fails: with standard output redirected, the line written to it
  still holds them.
\<close>

theorem color_codes_written_to_a_redirected_stream:
  "stdout_isatty world0 = False
   \<and> jpLog__info ''a.c'' ''main'' 10 ''value=%d'' [ArgInt 42] world0 =
       Returns () (world0\<lparr>stdout_bytes :=
         ''['' @ [ESC] @ ''[34;1mINFO'' @ [ESC] @ ''[0m][a.c][main][10]: value=42'' @ [NL]\<rparr>)"
  by (simp add: jpLog__info_cases vsprintf_def eval_line world0_def MSGBUFF_SIZE_def)

subsection \<open>Format arguments that do not match the template\<close>

text \<open>
  C7, amended. When the arguments of a formatted call match the conversions of
  its template (here: a template of ordinary characters, \<^verbatim>\<open>%s\<close>, \<^verbatim>\<open>%d\<close> and
  \<^verbatim>\<open>%%\<close>) and the rendered text fits the buffer, the line is written with its
  prefix intact and the call gives its caller no error. When an argument is
  missing or of the wrong type, the call of \<open>vsprintf\<close> that renders the
  message is undefined: the code checks nothing, and neither a return nor an
  intact prefix is guaranteed.
\<close>

theorem prefix_intact_when_arguments_match:
  "(vformat fmt ap = Inr text \<and> length text < MSGBUFF_SIZE \<longrightarrow>
      jpLog__info file func line fmt ap w =
        Returns () (w\<lparr>stdout_bytes := stdout_bytes w @
          log_prefix (color_wrapped ''34;1'' ''INFO'') file func (dec_int (sint line)) @
          text @ [NL]\<rparr>)
      \<and> jpLog__warn file func line fmt ap w =
        Returns () (w\<lparr>stderr_bytes := stderr_bytes w @
          log_prefix (color_wrapped ''33;1'' ''WARN'') file func (dec_int (sint line)) @
          text @ [NL]\<rparr>)
      \<and> jpLog__exit file func line fmt ap w =
        Exits EXIT_FAILURE (w\<lparr>stderr_bytes := stderr_bytes w @
          log_prefix (color_wrapped ''31;1'' ''EXIT'') file func (dec_int (sint line)) @
          text @ [NL]\<rparr>))
   \<and> (vformat fmt ap = Inl e \<and> (e = Missing_Argument \<or> e = Wrong_Argument_Type) \<longrightarrow>
      vsprintf MSGBUFF_SIZE fmt ap = Inl e
      \<and> jpLog__info file func line fmt ap w = Faults e
      \<and> jpLog__warn file func line fmt ap w = Faults e
      \<and> jpLog__exit file func line fmt ap w = Faults e)"
  by (simp add: jpLog__info_cases jpLog__warn_cases jpLog__exit_cases vsprintf_fits
      vsprintf_undefined log_line_def)

theorem prefix_intact_when_arguments_match_witness:
  "vformat ''%s=%d'' [ArgStr ''n'', ArgInt (- 3)] = Inr ''n=-3''
   \<and> length ''n=-3'' < MSGBUFF_SIZE
   \<and> jpLog__info ''b.c'' ''parse'' 22 ''%s=%d'' [ArgStr ''n'', ArgInt (- 3)] world0 =
       Returns () (world0\<lparr>stdout_bytes :=
         ''['' @ [ESC] @ ''[34;1mINFO'' @ [ESC] @ ''[0m][b.c][parse][22]: n=-3'' @ [NL]\<rparr>)
   \<and> jpLog__warn ''b.c'' ''parse'' 22 ''%s=%d'' [ArgStr ''n'', ArgInt (- 3)] world0 =
       Returns () (world0\<lparr>stderr_bytes :=
         ''['' @ [ESC] @ ''[33;1mWARN'' @ [ESC] @ ''[0m][b.c][parse][22]: n=-3'' @ [NL]\<rparr>)
   \<and> jpLog__exit ''b.c'' ''parse'' 22 ''%s=%d'' [ArgStr ''n'', ArgInt (- 3)] world0 =
       Exits 1 (world0\<lparr>stderr_bytes :=
         ''['' @ [ESC] @ ''[31;1mEXIT'' @ [ESC] @ ''[0m][b.c][parse][22]: n=-3'' @ [NL]\<rparr>)
   \<and> vformat ''%s=%d'' [ArgStr ''n''] = Inl Missing_Argument
   \<and> vsprintf MSGBUFF_SIZE ''%s=%d'' [ArgStr ''n''] = Inl Missing_Argument
   \<and> jpLog__warn ''b.c'' ''parse'' 22 ''%s=%d'' [ArgStr ''n''] world0 =
       Faults Missing_Argument
   \<and> vformat ''%s=%d'' [ArgInt 1, ArgInt 2] = Inl Wrong_Argument_Type
   \<and> vsprintf MSGBUFF_SIZE ''%s=%d'' [ArgInt 1, ArgInt 2] = Inl Wrong_Argument_Type
   \<and> jpLog__exit ''b.c'' ''parse'' 22 ''%s=%d'' [ArgInt 1, ArgInt 2] world0 =
       Faults Wrong_Argument_Type"
proof -
  have r: "vformat ''%s=%d'' [ArgStr ''n'', ArgInt (- 3)] = Inr ''n=-3''"
    by (simp add: eval_line)
  have l: "length ''n=-3'' < MSGBUFF_SIZE"
    by (simp add: MSGBUFF_SIZE_def)
  have m: "vformat ''%s=%d'' [ArgStr ''n''] = Inl Missing_Argument"
    by simp
  have t: "vformat ''%s=%d'' [ArgInt 1, ArgInt 2] = Inl Wrong_Argument_Type"
    by simp
  show ?thesis
    using r l m t
      prefix_intact_when_arguments_match [of "''%s=%d''" "[ArgStr ''n'', ArgInt (- 3)]"
        "''n=-3''" "''b.c''" "''parse''" 22 world0]
      prefix_intact_when_arguments_match [of "''%s=%d''" "[ArgStr ''n'']" _ "''b.c''"
        "''parse''" 22 world0 Missing_Argument]
      prefix_intact_when_arguments_match [of "''%s=%d''" "[ArgInt 1, ArgInt 2]" _ "''b.c''"
        "''parse''" 22 world0 Wrong_Argument_Type]
    by (simp add: eval_line world0_def EXIT_FAILURE_def)
qed

text \<open>
  The statement that a call with a missing argument cannot fail and always
  writes the prefix does not hold of the code: a second \<^verbatim>\<open>%s\<close> without an
  argument makes the call undefined, and nothing is guaranteed of it.
\<close>

theorem missing_format_argument_is_undefined:
  "jpLog__info ''a.c'' ''main'' 10 ''%s %s'' [ArgStr ''x''] world0 = Faults Missing_Argument"
  by (simp add: jpLog__info_cases vsprintf_def)

subsection \<open>No hidden state\<close>

text \<open>
  C10. What a call of \<open>jpLog__info\<close>, \<open>jpLog__warn\<close> or \<open>jpLog__exit\<close> writes is
  fixed by its arguments alone: there is one line that the call appends to its
  stream in every process, whatever has been written before and whatever the
  caller's variables hold (or else the call is undefined in every process, with
  the same fault).
\<close>

theorem emission_is_a_function_of_its_arguments:
  "((\<exists>l. \<forall>w :: 'u world. jpLog__info file func line msg ap w =
        Returns () (w\<lparr>stdout_bytes := stdout_bytes w @ l\<rparr>))
     \<or> (\<exists>e. \<forall>w :: 'u world. jpLog__info file func line msg ap w = Faults e))
   \<and> ((\<exists>l. \<forall>w :: 'u world. jpLog__warn file func line msg ap w =
        Returns () (w\<lparr>stderr_bytes := stderr_bytes w @ l\<rparr>))
     \<or> (\<exists>e. \<forall>w :: 'u world. jpLog__warn file func line msg ap w = Faults e))
   \<and> ((\<exists>l. \<forall>w :: 'u world. jpLog__exit file func line msg ap w =
        Exits EXIT_FAILURE (w\<lparr>stderr_bytes := stderr_bytes w @ l\<rparr>))
     \<or> (\<exists>e. \<forall>w :: 'u world. jpLog__exit file func line msg ap w = Faults e))"
  unfolding jpLog__info_cases jpLog__warn_cases jpLog__exit_cases
  by (cases "vsprintf MSGBUFF_SIZE msg ap") auto

theorem emission_is_a_function_of_its_arguments_witness:
  "jpLog__info ''a.c'' ''main'' 10 ''%s'' [ArgStr ''hi'']
     (world0\<lparr>stdout_bytes := ''earlier output'', user := 7\<rparr>) =
   Returns () (world0\<lparr>stdout_bytes := ''earlier output'' @
     ''['' @ [ESC] @ ''[34;1mINFO'' @ [ESC] @ ''[0m][a.c][main][10]: hi'' @ [NL], user := 7\<rparr>)"
proof -
  have a: "jpLog__info ''a.c'' ''main'' 10 ''%s'' [ArgStr ''hi''] world0 =
     Returns () (world0\<lparr>stdout_bytes :=
       ''['' @ [ESC] @ ''[34;1mINFO'' @ [ESC] @ ''[0m][a.c][main][10]: hi'' @ [NL]\<rparr>)"
    by (simp add: jpLog__info_cases vsprintf_def eval_line world0_def MSGBUFF_SIZE_def)
  from emission_is_a_function_of_its_arguments
    [of "''a.c''" "''main''" 10 "''%s''" "[ArgStr ''hi'']", where ?'u = nat]
  have "(\<exists>l. \<forall>w :: nat world. jpLog__info ''a.c'' ''main'' 10 ''%s'' [ArgStr ''hi''] w =
        Returns () (w\<lparr>stdout_bytes := stdout_bytes w @ l\<rparr>))
     \<or> (\<exists>e. \<forall>w :: nat world. jpLog__info ''a.c'' ''main'' 10 ''%s'' [ArgStr ''hi''] w =
        Faults e)"
    by (rule conjunct1)
  then obtain l where l: "\<And>w :: nat world.
      jpLog__info ''a.c'' ''main'' 10 ''%s'' [ArgStr ''hi''] w =
        Returns () (w\<lparr>stdout_bytes := stdout_bytes w @ l\<rparr>)"
    using a by auto
  from l [of world0] a
  have "stdout_bytes (world0\<lparr>stdout_bytes := stdout_bytes world0 @ l\<rparr>) =
    stdout_bytes (world0\<lparr>stdout_bytes :=
       ''['' @ [ESC] @ ''[34;1mINFO'' @ [ESC] @ ''[0m][a.c][main][10]: hi'' @ [NL]\<rparr>)"
    by simp
  then have "l = ''['' @ [ESC] @ ''[34;1mINFO'' @ [ESC] @ ''[0m][a.c][main][10]: hi'' @ [NL]"
    by (simp add: world0_def)
  with l [of "world0\<lparr>stdout_bytes := ''earlier output'', user := 7\<rparr>"] show ?thesis
    by (simp add: world0_def)
qed

end
